theory Spec2Isabelle
  imports Complex_Main "HOL-Library.Sublist" "HOL-Library.AList"
begin

section \<open>JavaScript strings\<close>

text \<open>
  A JavaScript string is a sequence of UTF-16 code units. The model uses \<^typ>\<open>string\<close>,
  whose characters are the code units below 256 (Latin-1); \<open>length\<close> is then the
  \<open>.length\<close> of the source. The whitespace of \<open>String.prototype.trim\<close> and of the regular
  expression class \<open>\s\<close> is, in that range, TAB, LF, VT, FF, CR, SPACE and NBSP.
\<close>

definition is_space :: "char \<Rightarrow> bool" where
  "is_space c = (c \<in> set [CHR 0x09, CHR 0x0A, CHR 0x0B, CHR 0x0C, CHR 0x0D, CHR 0x20, CHR 0xA0])"

definition trim :: "string \<Rightarrow> string" where
  "trim s = rev (dropWhile is_space (rev (dropWhile is_space s)))"

text \<open>
  \<open>toLowerCase\<close> on Latin-1 code units: \<open>A\<close>--\<open>Z\<close> and the accented capitals
  \<open>0xC0\<close>--\<open>0xDE\<close> (without the multiplication sign \<open>0xD7\<close>) move up by 32.
\<close>

definition to_lower :: "char \<Rightarrow> char" where
  "to_lower c =
     (let n = (of_char c :: int)
      in if (65 \<le> n \<and> n \<le> 90) \<or> (192 \<le> n \<and> n \<le> 222 \<and> n \<noteq> 215)
         then char_of (n + 32) else c)"

definition toLowerCase :: "string \<Rightarrow> string" where
  "toLowerCase s = map to_lower s"

text \<open>\<open>a.includes(b)\<close> is \<^term>\<open>sublist b a\<close>, \<open>a.startsWith(b)\<close> is \<^term>\<open>prefix b a\<close>.\<close>

text \<open>
  \<open>s.split(sep)\<close> for a string separator: the pieces between the non-overlapping
  occurrences of \<open>sep\<close>, found from the left. The empty separator splits into code units.
\<close>

fun split_from :: "char \<Rightarrow> string \<Rightarrow> string \<Rightarrow> string \<Rightarrow> string list" where
  "split_from s ss acc [] = [rev acc]"
| "split_from s ss acc (c # cs) =
     (if c = s \<and> prefix ss cs
      then rev acc # split_from s ss [] (drop (length ss) cs)
      else split_from s ss (c # acc) cs)"

fun split :: "string \<Rightarrow> string \<Rightarrow> string list" where
  "split [] text = map (\<lambda>c. [c]) text"
| "split (s # ss) text = split_from s ss [] text"

text \<open>\<open>s.split(/[...]/)\<close> for a character class: every character of the class separates.\<close>

fun split_class :: "(char \<Rightarrow> bool) \<Rightarrow> string \<Rightarrow> string \<Rightarrow> string list" where
  "split_class sep acc [] = [rev acc]"
| "split_class sep acc (c # cs) =
     (if sep c then rev acc # split_class sep [] cs else split_class sep (c # acc) cs)"

section \<open>JavaScript objects used as dictionaries\<close>

text \<open>
  A plain object is the list of its own properties in the order \<open>Object.keys\<close> gives
  them: array indices (canonical decimal numerals below \<open>2^32 - 1\<close>) first, in increasing
  numeric order, then the other keys in the order of their creation.
\<close>

type_synonym 'v js_object = "(string \<times> 'v) list"

definition is_digit :: "char \<Rightarrow> bool" where
  "is_digit c = (c \<in> set ''0123456789'')"

definition int_of_digits :: "string \<Rightarrow> int" where
  "int_of_digits k = foldl (\<lambda>n c. 10 * n + (of_char c - 48)) 0 k"

definition is_array_index :: "string \<Rightarrow> bool" where
  "is_array_index k =
     (k \<noteq> [] \<and> list_all is_digit k \<and> (k = ''0'' \<or> hd k \<noteq> CHR ''0'')
      \<and> int_of_digits k < 4294967295)"

fun insert_index :: "string \<Rightarrow> 'v \<Rightarrow> 'v js_object \<Rightarrow> 'v js_object" where
  "insert_index k v [] = [(k, v)]"
| "insert_index k v ((k', v') # rest) =
     (if is_array_index k' \<and> int_of_digits k' < int_of_digits k
      then (k', v') # insert_index k v rest
      else (k, v) # (k', v') # rest)"

text \<open>
  \<open>obj[k] = v\<close>. An existing property keeps its place; a new one is placed as
  \<open>Object.keys\<close> will list it. The key \<open>__proto__\<close> reaches the setter inherited from
  \<open>Object.prototype\<close>, which ignores a string \<open>v\<close> and creates no property (the source
  assigns an object only under an eight-digit key).
\<close>

definition js_set :: "'v js_object \<Rightarrow> string \<Rightarrow> 'v \<Rightarrow> 'v js_object" where
  "js_set obj k v =
     (if k = ''__proto__'' then obj
      else if map_of obj k = None \<and> is_array_index k then insert_index k v obj
      else AList.update k v obj)"

text \<open>
  \<open>obj[k]\<close>. A key that is not an own property is looked up in \<open>Object.prototype\<close>,
  whose members are functions (and, for \<open>__proto__\<close>, the prototype object itself).
\<close>

datatype 'v js_value = Undefined | Own 'v | Inherited string

definition object_prototype_names :: "string list" where
  "object_prototype_names =
     [''constructor'', ''__defineGetter__'', ''__defineSetter__'', ''hasOwnProperty'',
      ''__lookupGetter__'', ''__lookupSetter__'', ''isPrototypeOf'', ''propertyIsEnumerable'',
      ''toString'', ''valueOf'', ''__proto__'', ''toLocaleString'']"

definition js_get :: "'v js_object \<Rightarrow> string \<Rightarrow> 'v js_value" where
  "js_get obj k =
     (case map_of obj k of
        Some v \<Rightarrow> Own v
      | None \<Rightarrow> if k \<in> set object_prototype_names then Inherited k else Undefined)"

datatype js_error = TypeError

text \<open>The test \<open>if (x)\<close> for a string that may be \<open>undefined\<close>.\<close>

fun truthy :: "string option \<Rightarrow> bool" where
  "truthy None = False"
| "truthy (Some s) = (s \<noteq> [])"

section \<open>Document chunker\<close>

text \<open>
  The chunking loop of the upload route. The source fixes \<open>chunkSize = 1000\<close>; the model
  takes it as the parameter \<open>maxSize\<close> and \<open>textChunks\<close> instantiates it. The state of the
  outer loop is the pair (\<open>textChunks\<close>, \<open>currentChunk\<close>), that of the inner loop the pair
  (\<open>textChunks\<close>, \<open>subChunk\<close>).
\<close>

definition word_step :: "nat \<Rightarrow> string list \<times> string \<Rightarrow> string \<Rightarrow> string list \<times> string" where
  "word_step maxSize st word =
     (case st of (chunks, subChunk) \<Rightarrow>
        if length (subChunk @ '' '' @ word) > maxSize
        then (chunks @ [trim subChunk], word)
        else (chunks, subChunk @ '' '' @ word))"

definition paragraph_step ::
  "nat \<Rightarrow> string list \<times> string \<Rightarrow> string \<Rightarrow> string list \<times> string" where
  "paragraph_step maxSize st paragraph =
     (case st of (chunks, currentChunk) \<Rightarrow>
        if length (currentChunk @ paragraph) > maxSize
        then
          (case (if length currentChunk > 0 then (chunks @ [trim currentChunk], [])
                 else (chunks, currentChunk)) of
             (chunks1, current1) \<Rightarrow>
               if length paragraph > maxSize
               then
                 (case foldl (word_step maxSize) (chunks1, []) (split '' '' paragraph) of
                    (chunks2, subChunk) \<Rightarrow>
                      if length subChunk > 0 then (chunks2, trim subChunk)
                      else (chunks2, current1))
               else (chunks1, paragraph))
        else (chunks, currentChunk @ [CHR 0x0A, CHR 0x0A] @ paragraph))"

definition chunk :: "string \<Rightarrow> nat \<Rightarrow> string list" where
  "chunk text maxSize =
     (case foldl (paragraph_step maxSize) ([], []) (split [CHR 0x0A, CHR 0x0A] text) of
        (chunks, currentChunk) \<Rightarrow>
          if length currentChunk > 0 then chunks @ [trim currentChunk] else chunks)"

definition chunkSize :: nat where
  "chunkSize = 1000"

definition textChunks :: "string \<Rightarrow> string list" where
  "textChunks pdfText = chunk pdfText chunkSize"

section \<open>HS code extractor\<close>

text \<open>
  The regular expression of \<open>extractHSCodes\<close>, flags \<open>g\<close> and \<open>i\<close>:
  \<^verbatim>\<open>(\d{8})\s+(.*?)(?:\s+)(Free|Restricted|Prohibited|Not Permitted)\<close>.
  The matcher below follows the backtracking order of the engine: the first \<open>\s+\<close> is
  greedy (the longest run first, then shorter ones), \<open>.*?\<close> is lazy (the shortest
  description first) and stops at a line terminator, the second \<open>\s+\<close> is greedy again,
  and the alternatives are tried from left to right. Under the \<open>i\<close> flag a literal
  letter matches itself in either case.
\<close>

definition is_line_terminator :: "char \<Rightarrow> bool" where
  "is_line_terminator c = (c = CHR 0x0A \<or> c = CHR 0x0D)"

fun match_literal :: "string \<Rightarrow> string \<Rightarrow> string option" where
  "match_literal [] s = Some []"
| "match_literal (l # ls) [] = None"
| "match_literal (l # ls) (c # cs) =
     (if to_lower c = to_lower l then map_option ((#) c) (match_literal ls cs) else None)"

fun match_alternatives :: "string list \<Rightarrow> string \<Rightarrow> string option" where
  "match_alternatives [] s = None"
| "match_alternatives (l # ls) s =
     (case match_literal l s of Some m \<Rightarrow> Some m | None \<Rightarrow> match_alternatives ls s)"

definition policy_literals :: "string list" where
  "policy_literals = [''Free'', ''Restricted'', ''Prohibited'', ''Not Permitted'']"

text \<open>
  \<open>(?:\s+)(Free|...)\<close> at \<open>s\<close>, where \<open>s\<close> starts with at least \<open>m\<close> whitespace
  characters: the number of them taken, and the policy as written in the text.
\<close>

fun match_tail :: "nat \<Rightarrow> string \<Rightarrow> (nat \<times> string) option" where
  "match_tail 0 s = None"
| "match_tail (Suc m) s =
     (case match_alternatives policy_literals (drop (Suc m) s) of
        Some p \<Rightarrow> Some (Suc m, p)
      | None \<Rightarrow> match_tail m s)"

text \<open>\<open>(.*?)(?:\s+)(Free|...)\<close> at \<open>s\<close>; \<open>acc\<close> is the description so far, reversed.\<close>

fun match_description :: "string \<Rightarrow> string \<Rightarrow> (string \<times> nat \<times> string) option" where
  "match_description acc [] = None"
| "match_description acc (c # cs) =
     (case match_tail (length (takeWhile is_space (c # cs))) (c # cs) of
        Some (m, p) \<Rightarrow> Some (rev acc, m, p)
      | None \<Rightarrow> if is_line_terminator c then None else match_description (c # acc) cs)"

text \<open>\<open>\s+(.*?)(?:\s+)(Free|...)\<close> at \<open>s\<close>, which starts with at least \<open>k\<close> whitespace characters.\<close>

fun match_head :: "nat \<Rightarrow> string \<Rightarrow> (nat \<times> string \<times> nat \<times> string) option" where
  "match_head 0 s = None"
| "match_head (Suc k) s =
     (case match_description [] (drop (Suc k) s) of
        Some (d, m, p) \<Rightarrow> Some (Suc k, d, m, p)
      | None \<Rightarrow> match_head k s)"

text \<open>
  A match that starts at the first character of \<open>s\<close>: the groups 1, 2 and 3 and the
  length of the whole match.
\<close>

definition match_here :: "string \<Rightarrow> (string \<times> string \<times> string \<times> nat) option" where
  "match_here s =
     (if 8 \<le> length s \<and> list_all is_digit (take 8 s)
      then
        (case match_head (length (takeWhile is_space (drop 8 s))) (drop 8 s) of
           Some (k, d, m, p) \<Rightarrow> Some (take 8 s, d, p, 8 + k + length d + m + length p)
         | None \<Rightarrow> None)
      else None)"

lemma match_here_consumed:
  "match_here s = Some (code, d, p, n) \<Longrightarrow> 0 < n"
  by (auto simp: match_here_def split: if_splits option.splits)

text \<open>
  The loop \<open>while ((match = hsCodeRegex.exec(pdfText)) !== null)\<close>: the leftmost match
  from the current position, then on from its end.
\<close>

function exec_all :: "string \<Rightarrow> (string \<times> string \<times> string) list" where
  "exec_all [] = []"
| "exec_all (c # cs) =
     (case match_here (c # cs) of
        Some (code, d, p, n) \<Rightarrow> (code, d, p) # exec_all (drop n (c # cs))
      | None \<Rightarrow> exec_all cs)"
  by pat_completeness auto
termination
  by (relation "measure length") (auto dest!: match_here_consumed)

record hs_entry =
  description :: string
  policy :: string

definition is_item_separator :: "char \<Rightarrow> bool" where
  "is_item_separator c = (c \<in> set '',;/'')"

definition add_item :: "string \<Rightarrow> string js_object \<Rightarrow> string \<Rightarrow> string js_object" where
  "add_item hsCode itemToHsMap item =
     (if length item > 3 then js_set itemToHsMap item hsCode else itemToHsMap)"

definition add_match ::
  "hs_entry js_object \<times> string js_object \<Rightarrow> string \<times> string \<times> string
     \<Rightarrow> hs_entry js_object \<times> string js_object" where
  "add_match tables m =
     (case (tables, m) of ((hsCodesData, itemToHsMap), (hsCode, group2, exportPolicy)) \<Rightarrow>
        let desc = trim group2;
            items = map (\<lambda>item. toLowerCase (trim item)) (split_class is_item_separator [] desc)
        in (js_set hsCodesData hsCode \<lparr>description = desc, policy = exportPolicy\<rparr>,
            js_set (foldl (add_item hsCode) itemToHsMap items) (toLowerCase desc) hsCode))"

definition extractHSCodes :: "string \<Rightarrow> hs_entry js_object \<times> string js_object" where
  "extractHSCodes pdfText = foldl add_match ([], []) (exec_all pdfText)"

section \<open>Embedding index\<close>

text \<open>
  The embedding merge of the upload route. \<open>embedFn index chunk\<close> is the outcome of the
  worker's \<open>generateEmbedding\<close> for the chunk at \<open>index\<close>: \<open>None\<close> when the call fails
  (the promise then resolves to \<open>null\<close>). \<open>existing\<close> is the \<open>chunks\<close> property of the
  snapshot read from disk, \<open>None\<close> when there is none.
\<close>

record 'e chunk_rec =
  chunk_id :: nat
  content :: string
  embedding :: 'e

definition existingCount :: "'e chunk_rec list option \<Rightarrow> nat" where
  "existingCount existing = (case existing of None \<Rightarrow> 0 | Some cs \<Rightarrow> length cs)"

definition embeddingResults ::
  "'e chunk_rec list option \<Rightarrow> (nat \<Rightarrow> string \<Rightarrow> 'e option) \<Rightarrow> string list
     \<Rightarrow> 'e chunk_rec option list" where
  "embeddingResults existing embedFn chunks =
     map (\<lambda>(index, c).
            map_option (\<lambda>e. \<lparr>chunk_id = index + existingCount existing, content = c, embedding = e\<rparr>)
              (embedFn index c))
       (enumerate 0 chunks)"

definition successfulChunks :: "'e chunk_rec option list \<Rightarrow> 'e chunk_rec list" where
  "successfulChunks results = List.map_filter (\<lambda>r. r) results"

definition mergedChunks ::
  "'e chunk_rec list option \<Rightarrow> (nat \<Rightarrow> string \<Rightarrow> 'e option) \<Rightarrow> string list
     \<Rightarrow> 'e chunk_rec list" where
  "mergedChunks existing embedFn chunks =
     (case existing of None \<Rightarrow> [] | Some cs \<Rightarrow> cs)
       @ successfulChunks (embeddingResults existing embedFn chunks)"

section \<open>The in-memory database\<close>

text \<open>
  \<open>embeddingsDatabase\<close>: each property is \<open>None\<close> while it is \<open>undefined\<close>. At startup the
  module loads \<open>embeddings-database.json\<close> (the object \<open>{chunks, hsCodesData}\<close> that the
  upload route writes) and nothing else; without the file the database is \<open>{}\<close>.
\<close>

record 'e snapshot =
  snapshot_chunks :: "'e chunk_rec list"
  snapshot_hsCodesData :: "hs_entry js_object"

record 'e database =
  chunks :: "'e chunk_rec list option"
  hsCodesData :: "hs_entry js_object option"
  itemToHsMap :: "string js_object option"

definition startup :: "'e snapshot option \<Rightarrow> 'e database" where
  "startup file =
     (case file of
        None \<Rightarrow> \<lparr>chunks = None, hsCodesData = None, itemToHsMap = None\<rparr>
      | Some s \<Rightarrow>
          \<lparr>chunks = Some (snapshot_chunks s), hsCodesData = Some (snapshot_hsCodesData s),
           itemToHsMap = None\<rparr>)"

text \<open>
  \<open>{...a, ...b}\<close>: the properties of \<open>a\<close>, then those of \<open>b\<close> written over them.
\<close>

definition spread :: "'v js_object \<Rightarrow> 'v js_object \<Rightarrow> 'v js_object" where
  "spread a b = foldl (\<lambda>obj (k, v). js_set obj k v) a b"

text \<open>
  What a successful run of the upload route does with a PDF whose text is \<open>pdfText\<close>:
  the two files are read (when present), merged with the newly extracted tables and
  chunks, written back, and the three properties of the in-memory database are set.
\<close>

record 'e store =
  embeddings_file :: "'e snapshot option"
  item_file :: "string js_object option"
  memory :: "'e database"

definition upload_rules_pdf ::
  "'e store \<Rightarrow> (nat \<Rightarrow> string \<Rightarrow> 'e option) \<Rightarrow> string \<Rightarrow> 'e store" where
  "upload_rules_pdf st embedFn pdfText =
     (case extractHSCodes pdfText of
        (newHsCodesData, newItemToHsMap) \<Rightarrow>
          let mergedHsCodesData =
                spread (case embeddings_file st of None \<Rightarrow> [] | Some s \<Rightarrow> snapshot_hsCodesData s)
                  newHsCodesData;
              mergedItemToHsMap =
                spread (case item_file st of None \<Rightarrow> [] | Some m \<Rightarrow> m) newItemToHsMap;
              merged =
                mergedChunks (map_option snapshot_chunks (embeddings_file st)) embedFn
                  (textChunks pdfText)
          in \<lparr>embeddings_file =
               Some \<lparr>snapshot_chunks = merged, snapshot_hsCodesData = mergedHsCodesData\<rparr>,
             item_file = Some mergedItemToHsMap,
             memory = \<lparr>chunks = Some merged, hsCodesData = Some mergedHsCodesData,
                        itemToHsMap = Some mergedItemToHsMap\<rparr>\<rparr>)"

section \<open>Similarity ranker\<close>






















section \<open>Code resolver\<close>

text \<open>
  A value that stands where the source expects an HS code: a string, or a member of
  \<open>Object.prototype\<close> that a lookup under its name returned. \<open>Object.keys(obj).find(p)\<close>
  is \<^term>\<open>find p (map fst obj)\<close>, and \<open>obj[key]\<close> for such a key is
  \<^term>\<open>the (map_of obj key)\<close>.
\<close>

datatype code_value = Str string | Member string

definition findHSCodeByItemName ::
  "string \<Rightarrow> string js_object option \<Rightarrow> js_error + code_value option" where
  "findHSCodeByItemName name index =
     (case index of
        None \<Rightarrow> Inl TypeError
      | Some m \<Rightarrow>
          let normalizedItemName = trim (toLowerCase name);
              itemKeys = map fst m;
              isContained =
                (case find (\<lambda>key. sublist key normalizedItemName \<and> length key > 5) itemKeys of
                   Some key \<Rightarrow> Some (Str (the (map_of m key)))
                 | None \<Rightarrow> None);
              contains =
                (case find (\<lambda>key. sublist normalizedItemName key) itemKeys of
                   Some key \<Rightarrow> if key \<noteq> [] then Some (Str (the (map_of m key))) else isContained
                 | None \<Rightarrow> isContained)
          in Inr (case js_get m normalizedItemName of
                    Own v \<Rightarrow> if v \<noteq> [] then Some (Str v) else contains
                  | Inherited k \<Rightarrow> Some (Member k)
                  | Undefined \<Rightarrow> contains))"

text \<open>
  The two searches over the code table that \<open>findHSCodeByDescription\<close> and the
  find-by-description route share word for word.
\<close>

definition exactMatch :: "hs_entry js_object \<Rightarrow> string \<Rightarrow> string option" where
  "exactMatch t normalizedDescription =
     find (\<lambda>code. toLowerCase (description (the (map_of t code))) = normalizedDescription)
       (map fst t)"

definition partialMatch :: "hs_entry js_object \<Rightarrow> string \<Rightarrow> string option" where
  "partialMatch t normalizedDescription =
     find (\<lambda>code.
             sublist normalizedDescription (toLowerCase (description (the (map_of t code))))
             \<or> sublist (toLowerCase (description (the (map_of t code)))) normalizedDescription)
       (map fst t)"

definition findHSCodeByDescription ::
  "string \<Rightarrow> hs_entry js_object option \<Rightarrow> js_error + string option" where
  "findHSCodeByDescription desc table =
     (case table of
        None \<Rightarrow> Inl TypeError
      | Some t \<Rightarrow>
          let normalizedDescription = trim (toLowerCase desc)
          in Inr (if truthy (exactMatch t normalizedDescription)
                  then exactMatch t normalizedDescription
                  else if truthy (partialMatch t normalizedDescription)
                  then partialMatch t normalizedDescription
                  else None))"

section \<open>Compliance decision engine\<close>

text \<open>
  \<open>String(v)\<close> and \<open>v.length >= 4\<close> for a code value. A member of \<open>Object.prototype\<close> is
  a function of at most two parameters, printed as native code, or (for \<open>__proto__\<close>) the
  prototype object, which has no \<open>length\<close>.
\<close>

fun to_js_string :: "code_value \<Rightarrow> string" where
  "to_js_string (Str s) = s"
| "to_js_string (Member k) =
     (if k = ''__proto__'' then ''[object Object]''
      else ''function '' @ (if k = ''constructor'' then ''Object'' else k) @ ''() { [native code] }'')"

fun length_at_least_4 :: "code_value \<Rightarrow> bool" where
  "length_at_least_4 (Str s) = (length s \<ge> 4)"
| "length_at_least_4 (Member k) = False"

text \<open>
  The result object: \<open>Known allowed policy description\<close> is
  \<open>{exists: true, allowed, policy, description}\<close> and \<open>Unknown reason\<close> is
  \<open>{exists: false, allowed: false, reason}\<close>. \<open>explain prompt\<close> is the text the generative
  model returns, \<open>None\<close> when the call throws.
\<close>

datatype compliance = Known bool string string | Unknown string

definition matchingCodes :: "string \<Rightarrow> hs_entry js_object \<Rightarrow> string list" where
  "matchingCodes s t =
     filter (\<lambda>code. prefix (take 4 s) code \<or> prefix (take 2 s) code) (map fst t)"

definition unknownCode :: "string \<Rightarrow> (string \<Rightarrow> string option) \<Rightarrow> compliance" where
  "unknownCode s explain =
     (case explain (''Given HS code '' @ s @ '' that wasn't found in our database, provide a reason why this code might not be recognized. Limit your response to one short paragraph.'') of
        Some dynamicReason \<Rightarrow> Unknown dynamicReason
      | None \<Rightarrow>
          Unknown (''The HS Code '' @ s @ '' was not found in the export compliance regulations. Please verify the code and try again.''))"

definition chapterFallback ::
  "code_value \<Rightarrow> hs_entry js_object \<Rightarrow> (string \<Rightarrow> string option) \<Rightarrow> compliance" where
  "chapterFallback hsCode t explain =
     (case hsCode of
        Str s \<Rightarrow>
          if length_at_least_4 hsCode \<and> matchingCodes s t \<noteq> []
          then
            (let policies = map (\<lambda>code. policy (the (map_of t code))) (matchingCodes s t)
             in if list_ex (\<lambda>p. toLowerCase p = ''free'') policies
                then Known True ''Free''
                       (''Falls under chapter '' @ take 4 s @ '' which has some free categories'')
                else Known False (hd policies)
                       (''Falls under chapter '' @ take 4 s @ '' which has no free categories''))
          else unknownCode s explain
      | Member k \<Rightarrow> unknownCode (to_js_string hsCode) explain)"

definition checkHSCodeCompliance ::
  "code_value \<Rightarrow> 'e database \<Rightarrow> (string \<Rightarrow> string option) \<Rightarrow> js_error + compliance" where
  "checkHSCodeCompliance hsCode db explain =
     (case hsCodesData db of
        None \<Rightarrow> Inr (chapterFallback hsCode [] explain)
      | Some t \<Rightarrow>
          (case js_get t (to_js_string hsCode) of
             Own hsData \<Rightarrow>
               Inr (Known (toLowerCase (policy hsData) = ''free'') (policy hsData) (description hsData))
           | Inherited k \<Rightarrow> Inl TypeError
           | Undefined \<Rightarrow> Inr (chapterFallback hsCode t explain)))"

section \<open>Routes\<close>

text \<open>
  A response is the HTTP status and the JSON body, a list of fields in the order the
  source writes them. A request field is \<open>None\<close> when the body has no such field; the
  model covers string fields.
\<close>

datatype json = JBool bool | JString string | JNull | JEmptyObject

type_synonym response = "nat \<times> (string \<times> json) list"

fun json_truthy :: "json option \<Rightarrow> bool" where
  "json_truthy None = False"
| "json_truthy (Some (JBool b)) = b"
| "json_truthy (Some (JString s)) = (s \<noteq> [])"
| "json_truthy (Some JNull) = False"
| "json_truthy (Some JEmptyObject) = True"

text \<open>
  A code value as a field of the body: \<open>JSON.stringify\<close> leaves out a field whose value
  is a function and prints \<open>Object.prototype\<close> as \<open>{}\<close>.
\<close>

fun code_field :: "string \<Rightarrow> code_value \<Rightarrow> (string \<times> json) list" where
  "code_field name (Str s) = [(name, JString s)]"
| "code_field name (Member k) = (if k = ''__proto__'' then [(name, JEmptyObject)] else [])"

definition or_null :: "string option \<Rightarrow> json" where
  "or_null x = (case x of None \<Rightarrow> JNull | Some s \<Rightarrow> if s = [] then JNull else JString s)"

record request =
  hsCode :: "string option"
  itemName :: "string option"
  itemDescription :: "string option"

subsection \<open>\<open>POST /api/check-export-compliance\<close>\<close>

text \<open>
  The three parts of the handler's \<open>try\<close> block: the item-name branch, the description
  branch, and the decision. Each returns \<open>Inl TypeError\<close> when the source throws, and
  the first two return \<open>Inr (Inl response)\<close> when the handler answers early.
\<close>

definition byItemName ::
  "'e database \<Rightarrow> request \<Rightarrow> code_value option \<Rightarrow> js_error + (response + code_value option)" where
  "byItemName db req codeToCheck =
     (if \<not> truthy (hsCode req) \<and> truthy (itemName req)
      then
        (case findHSCodeByItemName (the (itemName req)) (itemToHsMap db) of
           Inl e \<Rightarrow> Inl e
         | Inr found \<Rightarrow>
             if found = None \<or> found = Some (Str [])
             then Inr (Inl (200,
                    [(''status'', JBool False), (''allowed'', JBool False),
                     (''reason'', JString (''Could not find an HS code matching item name: ''
                        @ the (itemName req) @ ''. Please provide a valid HS code.''))]))
             else Inr (Inr found))
      else Inr (Inr codeToCheck))"

definition byDescription ::
  "'e database \<Rightarrow> request \<Rightarrow> (string \<Rightarrow> string option) \<Rightarrow> code_value option
     \<Rightarrow> js_error + (response + code_value option)" where
  "byDescription db req explain codeToCheck =
     (if \<not> truthy (hsCode req) \<and> truthy (itemDescription req)
      then
        (let normalizedDescription = trim (toLowerCase (the (itemDescription req)))
         in case findHSCodeByDescription normalizedDescription (hsCodesData db) of
              Inl e \<Rightarrow> Inl e
            | Inr None \<Rightarrow>
                Inr (Inl (200,
                  [(''status'', JBool False), (''allowed'', JBool False),
                   (''reason'', JString
                      (case explain (''Given the description '' @ [CHR 0x22] @ normalizedDescription
                               @ [CHR 0x22] @ '' not found in USA import regulations, provide a short reason why this item is restricted for export.'') of
                         Some t \<Rightarrow> t
                       | None \<Rightarrow> ''No matching HS code found for description '' @ [CHR 0x22]
                               @ normalizedDescription @ [CHR 0x22]
                               @ ''. Unable to determine a specific reason due to an AI processing error.'')),
                   (''queriedDescription'', JString normalizedDescription)]))
            | Inr (Some code) \<Rightarrow> Inr (Inr (Some (Str code))))
      else Inr (Inr codeToCheck))"

definition decide ::
  "'e database \<Rightarrow> request \<Rightarrow> (string \<Rightarrow> string option) \<Rightarrow> code_value \<Rightarrow> js_error + response" where
  "decide db req explain codeToCheck =
     (case checkHSCodeCompliance codeToCheck db explain of
        Inl e \<Rightarrow> Inl e
      | Inr (Unknown reason) \<Rightarrow>
          Inr (200,
            [(''status'', JBool False), (''allowed'', JBool False), (''reason'', JString reason)]
            @ code_field ''queriedHsCode'' codeToCheck
            @ [(''queriedItemName'', or_null (itemName req))])
      | Inr (Known allowed pol desc) \<Rightarrow>
          if allowed
          then Inr (200,
            [(''status'', JBool True), (''allowed'', JBool True)]
            @ code_field ''hsCode'' codeToCheck
            @ [(''policy'', JString pol), (''description'', JString desc),
               (''conditions'', JString ''Standard export conditions apply''),
               (''queriedItemName'', or_null (itemName req))])
          else Inr (200,
            [(''status'', JBool False), (''allowed'', JBool False)]
            @ code_field ''hsCode'' codeToCheck
            @ [(''policy'', JString pol), (''description'', JString desc),
               (''reason'', JString
                  (case explain (''Given the HS code '' @ to_js_string codeToCheck
                           @ '' is not allowed for export, provide a short reason why this item is restricted.'') of
                     Some t \<Rightarrow> t
                   | None \<Rightarrow> ''Export not allowed for HS Code '' @ to_js_string codeToCheck
                           @ '' with policy '' @ pol
                           @ ''. Unable to determine a reason due to an AI processing error.'')),
               (''queriedItemName'', or_null (itemName req))]))"

definition serverError :: response where
  "serverError =
     (500, [(''status'', JBool False),
            (''error'', JString ''An error occurred while checking export compliance'')])"

definition check_export_compliance ::
  "'e database \<Rightarrow> request \<Rightarrow> (string \<Rightarrow> string option) \<Rightarrow> response" where
  "check_export_compliance db req explain =
     (if \<not> truthy (hsCode req) \<and> \<not> truthy (itemName req) \<and> \<not> truthy (itemDescription req)
      then (400, [(''status'', JBool False),
                  (''error'', JString ''Missing required fields. Please provide either hsCode, itemName, or itemDescription'')])
      else
        (case byItemName db req (map_option Str (hsCode req)) of
           Inl e \<Rightarrow> serverError
         | Inr (Inl early) \<Rightarrow> early
         | Inr (Inr code1) \<Rightarrow>
             (case byDescription db req explain code1 of
                Inl e \<Rightarrow> serverError
              | Inr (Inl early) \<Rightarrow> early
              | Inr (Inr code2) \<Rightarrow>
                  (case decide db req explain (the code2) of
                     Inl e \<Rightarrow> serverError
                   | Inr r \<Rightarrow> r))))"

subsection \<open>\<open>POST /api/find-by-description\<close>\<close>

definition find_by_description :: "'e database \<Rightarrow> string option \<Rightarrow> response" where
  "find_by_description db desc =
     (if \<not> truthy desc
      then (400, [(''status'', JBool False),
                  (''error'', JString ''Missing required field: description'')])
      else
        (let normalizedDescription = trim (toLowerCase (the desc));
             t = (case hsCodesData db of None \<Rightarrow> [] | Some t \<Rightarrow> t)
         in if truthy (exactMatch t normalizedDescription)
            then (200, [(''hsCode'', JString (the (exactMatch t normalizedDescription)))])
            else if truthy (partialMatch t normalizedDescription)
            then (200, [(''status'', JBool True),
                        (''hsCode'', JString (the (partialMatch t normalizedDescription))),
                        (''note'', JString ''Found via partial match'')])
            else (200, [(''status'', JBool False),
                        (''error'', JString ''No matching HS code found for this description'')])))"

section \<open>Shipment compliance orchestrator, step 1\<close>

text \<open>
  Step 1 of \<open>/api/check-shipment-compliance\<close> for one item. \<open>post\<close> is the endpoint
  behind \<open>axios.post(.../api/find-by-description, {description: item.itemName})\<close>; a
  status outside 2xx makes \<open>axios\<close> throw, and the \<open>catch\<close> rejects the item.
  \<open>Proceed code note\<close> goes on to step 2 with \<open>hsCode\<close> and \<open>itemReport.hsCodeNote\<close>;
  \<open>Rejected reason\<close> pushes the item's report with \<open>status: false\<close>.
\<close>

datatype step1_result = Proceed json "json option" | Rejected json

definition or_else :: "json option \<Rightarrow> string \<Rightarrow> json" where
  "or_else x dflt = (if json_truthy x then the x else JString dflt)"

definition step1 ::
  "(string option \<Rightarrow> response) \<Rightarrow> string option \<Rightarrow> string option \<Rightarrow> step1_result" where
  "step1 post item_hsCode item_itemName =
     (if truthy item_hsCode then Proceed (JString (the item_hsCode)) None
      else
        (case post item_itemName of
           (status, data) \<Rightarrow>
             if 200 \<le> status \<and> status < 300
             then
               (if json_truthy (map_of data ''status'') \<and> json_truthy (map_of data ''hsCode'')
                then Proceed (the (map_of data ''hsCode''))
                       (Some (or_else (map_of data ''note'') ''Generated from item name''))
                else Rejected (or_else (map_of data ''reason'') ''HS Code could not be determined''))
             else Rejected (JString ''Error determining HS code'')))"

section \<open>Properties of the chunker\<close>

lemma split_from_skip:
  "s \<notin> set xs \<Longrightarrow> split_from s ss acc (xs @ rest) = split_from s ss (rev xs @ acc) rest"
  by (induction xs arbitrary: acc) auto

lemma split_no_separator:
  "s \<notin> set xs \<Longrightarrow> split (s # ss) xs = [xs]"
  using split_from_skip [of s xs ss "[]" "[]"] by simp

lemma trim_unchanged:
  assumes "xs \<noteq> []" "\<not> is_space (hd xs)" "\<not> is_space (last xs)"
  shows "trim xs = xs"
proof -
  have "dropWhile is_space xs = xs"
    using assms by (cases xs) auto
  moreover have "dropWhile is_space (rev xs) = rev xs"
    using assms by (cases "rev xs") (auto simp: hd_rev)
  ultimately show ?thesis by (simp add: trim_def)
qed

text \<open>
  A text that is one word longer than \<open>maxSize\<close>: the inner loop pushes the empty
  \<open>subChunk\<close> before it takes the word.
\<close>

lemma chunk_long_word:
  assumes "CHR 0x0A \<notin> set w" "CHR '' '' \<notin> set w" "m < length w"
    "\<not> is_space (hd w)" "\<not> is_space (last w)"
  shows "chunk w m = [[], w]"
proof -
  have w: "w \<noteq> []" using assms(3) by auto
  have sp1: "split '' '' w = [w]" and sp2: "split [CHR 0x0A, CHR 0x0A] w = [w]"
    using assms by (simp_all only: split_no_separator not_False_eq_True)
  have "foldl (word_step m) ([], []) (split '' '' w) = ([[]], w)"
    unfolding sp1 using assms by (simp add: word_step_def trim_def)
  then have "paragraph_step m ([], []) w = ([[]], w)"
    using assms w by (simp add: paragraph_step_def trim_unchanged del: split.simps)
  then show ?thesis
    unfolding chunk_def sp2 using assms w by (simp add: trim_unchanged)
qed

lemma split_three_paragraphs:
  assumes "CHR 0x0A \<notin> set p1" "CHR 0x0A \<notin> set p2" "CHR 0x0A \<notin> set p3"
  shows "split [CHR 0x0A, CHR 0x0A] (p1 @ [CHR 0x0A, CHR 0x0A] @ p2 @ [CHR 0x0A, CHR 0x0A] @ p3)
           = [p1, p2, p3]"
proof -
  have "split_from (CHR 0x0A) [CHR 0x0A] [] p3 = [p3]"
    using split_from_skip [of "CHR 0x0A" p3 "[CHR 0x0A]" "[]" "[]"] assms by simp
  then have "split_from (CHR 0x0A) [CHR 0x0A] [] (p2 @ [CHR 0x0A, CHR 0x0A] @ p3) = [p2, p3]"
    using assms by (simp add: split_from_skip)
  then show ?thesis
    using assms by (simp add: split_from_skip)
qed

text \<open>
  Three paragraphs, the first flushed when the second arrives: the third is appended to
  the second when their two lengths alone fit, and the chunk is two characters longer.
\<close>

lemma chunk_three_paragraphs:
  assumes nl: "CHR 0x0A \<notin> set p1" "CHR 0x0A \<notin> set p2" "CHR 0x0A \<notin> set p3"
    and len: "length p1 \<le> m" "m < length p1 + length p2 + 2" "length p2 + length p3 \<le> m"
    and ends: "p1 \<noteq> []" "\<not> is_space (hd p1)" "\<not> is_space (last p1)"
      "p2 \<noteq> []" "\<not> is_space (hd p2)" "p3 \<noteq> []" "\<not> is_space (last p3)"
  shows "chunk (p1 @ [CHR 0x0A, CHR 0x0A] @ p2 @ [CHR 0x0A, CHR 0x0A] @ p3) m
           = [p1, p2 @ [CHR 0x0A, CHR 0x0A] @ p3]"
proof -
  have s1: "paragraph_step m ([], []) p1 = ([], [CHR 0x0A, CHR 0x0A] @ p1)"
    using len by (simp add: paragraph_step_def)
  have t1: "trim ([CHR 0x0A, CHR 0x0A] @ p1) = p1"
    using trim_unchanged [of p1] ends by (simp add: trim_def is_space_def)
  have s2: "paragraph_step m ([], [CHR 0x0A, CHR 0x0A] @ p1) p2 = ([p1], p2)"
    using len t1 by (simp add: paragraph_step_def)
  have s3: "paragraph_step m ([p1], p2) p3 = ([p1], p2 @ [CHR 0x0A, CHR 0x0A] @ p3)"
    using len by (simp add: paragraph_step_def)
  have t3: "trim (p2 @ [CHR 0x0A, CHR 0x0A] @ p3) = p2 @ [CHR 0x0A, CHR 0x0A] @ p3"
    using ends by (intro trim_unchanged) auto
  show ?thesis
    unfolding chunk_def split_three_paragraphs [OF nl] using s1 s2 s3 t3 ends by simp
qed

text \<open>
  Claim C1 (chunks are at most \<open>maxSize\<close> long, a single over-long word apart, also
  counting the separators between accumulated paragraphs). The code tests
  \<open>(currentChunk + paragraph).length > chunkSize\<close> and then appends
  \<open>'\n\n' + paragraph\<close>, so the separator is not counted, whereas the word loop does count
  its separator. For the text of three paragraphs 999 times \<open>a\<close>, 498 times \<open>b\<close> and the word \<open>b\<close>, and
  500 times \<open>c\<close>, the second chunk has 1002 characters and holds three words.
\<close>

theorem chunk_exceeds_chunkSize:
  "textChunks (replicate 999 (CHR ''a'') @ [CHR 0x0A, CHR 0x0A]
       @ (replicate 498 (CHR ''b'') @ '' b'') @ [CHR 0x0A, CHR 0x0A] @ replicate 500 (CHR ''c''))
     = [replicate 999 (CHR ''a''),
        (replicate 498 (CHR ''b'') @ '' b'') @ [CHR 0x0A, CHR 0x0A] @ replicate 500 (CHR ''c'')]
   \<and> length ((replicate 498 (CHR ''b'') @ '' b'') @ [CHR 0x0A, CHR 0x0A]
               @ replicate 500 (CHR ''c'')) = 1002
   \<and> chunkSize = 1000"
  unfolding textChunks_def chunkSize_def
  by (subst chunk_three_paragraphs) (simp_all add: is_space_def hd_append)

text \<open>
  Claim C5 (every chunk is a non-empty string). The code guards the flushes of
  \<open>currentChunk\<close> with \<open>currentChunk.length > 0\<close>, before trimming, and pushes
  \<open>subChunk.trim()\<close> in the word loop with no guard at all. The empty text, a text of
  blanks and a single word of 1001 characters each give an empty chunk.
\<close>

theorem chunk_emits_empty_chunk:
  "textChunks [] = [[]]
   \<and> textChunks ''   '' = [[]]
   \<and> textChunks (replicate 1001 (CHR ''a'')) = [[], replicate 1001 (CHR ''a'')]"
proof -
  have "chunk (replicate 1001 (CHR ''a'')) 1000 = [[], replicate 1001 (CHR ''a'')]"
    by (rule chunk_long_word) (simp_all add: is_space_def)
  then show ?thesis
    by (simp add: textChunks_def chunkSize_def chunk_def paragraph_step_def trim_def is_space_def)
qed

section \<open>Properties of the embedding merge\<close>

text \<open>Each new chunk's id is its index in the ingestion plus the number of stored chunks.\<close>

lemma embeddingResults_id:
  assumes "i < length cs" "embeddingResults existing embedFn cs ! i = Some c"
  shows "chunk_id c = i + existingCount existing"
  using assms by (auto simp: embeddingResults_def nth_enumerate_eq)

text \<open>
  Claim C4 (ids stay monotonically increasing across merges, also after failed
  embeddings). The offset is the number of chunks stored, not the largest id stored. A
  first ingestion of three chunks whose first two embeddings fail stores the id 2 alone;
  a second ingestion of one chunk then gives it the id 1.
\<close>

theorem merged_ids_decrease_after_failure:
  "map chunk_id
     (mergedChunks
        (Some (mergedChunks None (\<lambda>index c. if index < 2 then None else Some ())
                 [''a'', ''b'', ''c'']))
        (\<lambda>index c. Some ()) [''d''])
   = [2, 1]"
  by (simp add: mergedChunks_def embeddingResults_def successfulChunks_def existingCount_def
      List.map_filter_def)

section \<open>Properties of the decision engine\<close>

text \<open>A numeric code is never the name of a member of \<open>Object.prototype\<close>.\<close>

lemma digits_not_prototype_name:
  "C \<noteq> [] \<Longrightarrow> list_all is_digit C \<Longrightarrow> C \<notin> set object_prototype_names"
  by (cases C) (auto simp: object_prototype_names_def is_digit_def)

lemma check_absent:
  assumes "hsCodesData db = Some t" "map_of t C = None" "C \<notin> set object_prototype_names"
  shows "checkHSCodeCompliance (Str C) db explain = Inr (chapterFallback (Str C) t explain)"
  using assms by (simp add: checkHSCodeCompliance_def js_get_def)

lemma policies_free:
  "list_ex (\<lambda>p. toLowerCase p = ''free'') (map (\<lambda>code. policy (the (map_of t code))) codes)
     = list_ex (\<lambda>code. toLowerCase (policy (the (map_of t code))) = ''free'') codes"
  by (induction codes) auto

lemma prefix_take_2_of_4:
  assumes "4 \<le> length C" "prefix (take 4 C) code"
  shows "prefix (take 2 C) code"
proof -
  have "take 2 C = take 2 (take 4 C)" by simp
  then have "prefix (take 2 C) (take 4 C)" by (metis take_is_prefix)
  then show ?thesis using assms(2) by (rule prefix_order.trans)
qed

lemma matchingCodes_two_digit:
  "4 \<le> length C \<Longrightarrow> matchingCodes C t = filter (prefix (take 2 C)) (map fst t)"
  unfolding matchingCodes_def
  by (rule filter_cong) (auto dest: prefix_take_2_of_4)

text \<open>
  Claim C6. Let \<open>C\<close> be a code of length at least 4 that is not a key of the code table
  (and not the name of a member of \<open>Object.prototype\<close>, which a lookup would find: no
  numeric code is, by \<open>digits_not_prototype_name\<close>). The engine gathers the stored codes that start with the first four
  or with the first two characters of \<open>C\<close>, in the order of \<open>Object.keys\<close>. If the policy
  of a gathered code is \<open>free\<close> in any case, the result is allowed with policy \<open>Free\<close> and
  the synthesized chapter description; if codes are gathered and none is free, the
  result is not allowed and carries the policy of the first gathered code; if none is
  gathered, the explanation oracle is asked.
\<close>

theorem chapter_fallback_decision:
  assumes "hsCodesData db = Some t" and "map_of t C = None"
    and "C \<notin> set object_prototype_names" and "4 \<le> length C"
  shows "let gathered = filter (\<lambda>code. prefix (take 4 C) code \<or> prefix (take 2 C) code) (map fst t);
             free = list_ex (\<lambda>code. toLowerCase (policy (the (map_of t code))) = ''free'') gathered
         in (free \<longrightarrow> checkHSCodeCompliance (Str C) db explain =
               Inr (Known True ''Free''
                     (''Falls under chapter '' @ take 4 C @ '' which has some free categories'')))
          \<and> (gathered \<noteq> [] \<and> \<not> free \<longrightarrow> checkHSCodeCompliance (Str C) db explain =
               Inr (Known False (policy (the (map_of t (hd gathered))))
                     (''Falls under chapter '' @ take 4 C @ '' which has no free categories'')))
          \<and> (gathered = [] \<longrightarrow> checkHSCodeCompliance (Str C) db explain = Inr (unknownCode C explain))"
proof -
  have "checkHSCodeCompliance (Str C) db explain = Inr (chapterFallback (Str C) t explain)"
    using assms(1-3) by (rule check_absent)
  then show ?thesis
    using assms(4)
    by (auto simp: chapterFallback_def matchingCodes_def policies_free Let_def hd_map)
qed

text \<open>
  The example of claim C6: with the table \<open>{"12345678": Restricted, "12340000": Free}\<close>
  the code \<open>12349999\<close> is allowed. With \<open>12345678\<close> (Restricted) entered before
  \<open>12000000\<close> (Prohibited) it is not allowed, with the policy of \<open>12000000\<close>, which
  \<open>Object.keys\<close> lists first.
\<close>

theorem chapter_fallback_decision_witness:
  "map_of (js_set (js_set [] ''12345678'' \<lparr>description = ''Cotton shirts'', policy = ''Restricted''\<rparr>)
             ''12340000'' \<lparr>description = ''Telephone sets'', policy = ''Free''\<rparr>) ''12349999'' = None
   \<and> ''12349999'' \<notin> set object_prototype_names
   \<and> checkHSCodeCompliance (Str ''12349999'')
        \<lparr>chunks = (None :: unit chunk_rec list option),
         hsCodesData = Some (js_set (js_set [] ''12345678'' \<lparr>description = ''Cotton shirts'', policy = ''Restricted''\<rparr>)
             ''12340000'' \<lparr>description = ''Telephone sets'', policy = ''Free''\<rparr>),
         itemToHsMap = None\<rparr> (\<lambda>prompt. None)
       = Inr (Known True ''Free'' ''Falls under chapter 1234 which has some free categories'')
   \<and> checkHSCodeCompliance (Str ''12349999'')
        \<lparr>chunks = (None :: unit chunk_rec list option),
         hsCodesData = Some (js_set (js_set [] ''12345678'' \<lparr>description = ''Cotton shirts'', policy = ''Restricted''\<rparr>)
             ''12000000'' \<lparr>description = ''Live animals'', policy = ''Prohibited''\<rparr>),
         itemToHsMap = None\<rparr> (\<lambda>prompt. None)
       = Inr (Known False ''Prohibited'' ''Falls under chapter 1234 which has no free categories'')"
  using chapter_fallback_decision [of
      "\<lparr>chunks = (None :: unit chunk_rec list option),
         hsCodesData = Some (js_set (js_set [] ''12345678'' \<lparr>description = ''Cotton shirts'', policy = ''Restricted''\<rparr>)
             ''12340000'' \<lparr>description = ''Telephone sets'', policy = ''Free''\<rparr>),
         itemToHsMap = None\<rparr>"
      "js_set (js_set [] ''12345678'' \<lparr>description = ''Cotton shirts'', policy = ''Restricted''\<rparr>)
             ''12340000'' \<lparr>description = ''Telephone sets'', policy = ''Free''\<rparr>"
      "''12349999''" "\<lambda>prompt. None"]
    chapter_fallback_decision [of
      "\<lparr>chunks = (None :: unit chunk_rec list option),
         hsCodesData = Some (js_set (js_set [] ''12345678'' \<lparr>description = ''Cotton shirts'', policy = ''Restricted''\<rparr>)
             ''12000000'' \<lparr>description = ''Live animals'', policy = ''Prohibited''\<rparr>),
         itemToHsMap = None\<rparr>"
      "js_set (js_set [] ''12345678'' \<lparr>description = ''Cotton shirts'', policy = ''Restricted''\<rparr>)
             ''12000000'' \<lparr>description = ''Live animals'', policy = ''Prohibited''\<rparr>"
      "''12349999''" "\<lambda>prompt. None"]
  by (simp add: js_set_def is_array_index_def is_digit_def int_of_digits_def
      object_prototype_names_def toLowerCase_def to_lower_def char_of_def Let_def)

text \<open>
  Claim C2 as stated (the two-digit prefix is a fallback, consulted only when no code
  has the four-digit prefix) fails: next to \<open>12345678\<close> (Restricted), which has the
  four-digit prefix of \<open>12349999\<close>, the code \<open>12990000\<close> (Free) has only the two-digit prefix,
  and it turns the decision from not allowed to allowed.
\<close>

theorem two_digit_code_changes_decision:
  "checkHSCodeCompliance (Str ''12349999'')
        \<lparr>chunks = (None :: unit chunk_rec list option),
         hsCodesData = Some (js_set (js_set [] ''12345678'' \<lparr>description = ''Cotton shirts'', policy = ''Restricted''\<rparr>)
             ''12990000'' \<lparr>description = ''Telephone sets'', policy = ''Free''\<rparr>),
         itemToHsMap = None\<rparr> (\<lambda>prompt. None)
       = Inr (Known True ''Free'' ''Falls under chapter 1234 which has some free categories'')
   \<and> checkHSCodeCompliance (Str ''12349999'')
        \<lparr>chunks = (None :: unit chunk_rec list option),
         hsCodesData = Some (js_set [] ''12345678'' \<lparr>description = ''Cotton shirts'', policy = ''Restricted''\<rparr>),
         itemToHsMap = None\<rparr> (\<lambda>prompt. None)
       = Inr (Known False ''Restricted'' ''Falls under chapter 1234 which has no free categories'')"
  by (simp add: checkHSCodeCompliance_def chapterFallback_def matchingCodes_def js_get_def
      js_set_def is_array_index_def is_digit_def int_of_digits_def
      object_prototype_names_def toLowerCase_def to_lower_def char_of_def Let_def)

text \<open>
  Claim C2, amended. For a code \<open>C\<close> of length at least 4 that is not a key of the table,
  the engine consults both prefixes in one filter, and the codes it gathers are exactly
  the stored codes that start with the first two characters of \<open>C\<close>. A free code among
  them makes the result allowed, whether or not other codes have the four-digit prefix;
  with no free code among them the result carries the policy of the first of them.
\<close>

theorem two_digit_prefix_decides:
  assumes "hsCodesData db = Some t" and "map_of t C = None"
    and "C \<notin> set object_prototype_names" and "4 \<le> length C"
  shows "filter (\<lambda>code. prefix (take 4 C) code \<or> prefix (take 2 C) code) (map fst t)
           = filter (prefix (take 2 C)) (map fst t)
       \<and> (list_ex (\<lambda>code. prefix (take 2 C) code
                           \<and> toLowerCase (policy (the (map_of t code))) = ''free'') (map fst t)
            \<longrightarrow> checkHSCodeCompliance (Str C) db explain =
                  Inr (Known True ''Free''
                        (''Falls under chapter '' @ take 4 C @ '' which has some free categories'')))
       \<and> (list_ex (prefix (take 2 C)) (map fst t)
            \<and> \<not> list_ex (\<lambda>code. prefix (take 2 C) code
                           \<and> toLowerCase (policy (the (map_of t code))) = ''free'') (map fst t)
            \<longrightarrow> checkHSCodeCompliance (Str C) db explain =
                  Inr (Known False
                        (policy (the (map_of t (hd (filter (prefix (take 2 C)) (map fst t))))))
                        (''Falls under chapter '' @ take 4 C @ '' which has no free categories'')))"
proof -
  have m: "matchingCodes C t = filter (prefix (take 2 C)) (map fst t)"
    using assms(4) by (rule matchingCodes_two_digit)
  have c: "checkHSCodeCompliance (Str C) db explain = Inr (chapterFallback (Str C) t explain)"
    using assms(1-3) by (rule check_absent)
  have e: "list_ex (\<lambda>code. toLowerCase (policy (the (map_of t code))) = ''free'')
             (filter (prefix (take 2 C)) (map fst t))
         = list_ex (\<lambda>code. prefix (take 2 C) code
                           \<and> toLowerCase (policy (the (map_of t code))) = ''free'') (map fst t)"
    by (auto simp: list_ex_iff)
  have n: "(filter (prefix (take 2 C)) (map fst t) \<noteq> []) = list_ex (prefix (take 2 C)) (map fst t)"
    by (auto simp: list_ex_iff filter_empty_conv)
  show ?thesis
    using assms(4) m [unfolded matchingCodes_def] e n
    by (auto simp: c chapterFallback_def m policies_free hd_map)
qed

theorem two_digit_prefix_decides_witness:
  "map_of (js_set (js_set [] ''12345678'' \<lparr>description = ''Cotton shirts'', policy = ''Restricted''\<rparr>)
             ''12990000'' \<lparr>description = ''Telephone sets'', policy = ''Free''\<rparr>) ''12349999'' = None
   \<and> ''12349999'' \<notin> set object_prototype_names
   \<and> checkHSCodeCompliance (Str ''12349999'')
        \<lparr>chunks = (None :: unit chunk_rec list option),
         hsCodesData = Some (js_set (js_set [] ''12345678'' \<lparr>description = ''Cotton shirts'', policy = ''Restricted''\<rparr>)
             ''12990000'' \<lparr>description = ''Telephone sets'', policy = ''Free''\<rparr>),
         itemToHsMap = None\<rparr> (\<lambda>prompt. None)
       = Inr (Known True ''Free'' ''Falls under chapter 1234 which has some free categories'')"
  using two_digit_prefix_decides [of
      "\<lparr>chunks = (None :: unit chunk_rec list option),
         hsCodesData = Some (js_set (js_set [] ''12345678'' \<lparr>description = ''Cotton shirts'', policy = ''Restricted''\<rparr>)
             ''12990000'' \<lparr>description = ''Telephone sets'', policy = ''Free''\<rparr>),
         itemToHsMap = None\<rparr>"
      "js_set (js_set [] ''12345678'' \<lparr>description = ''Cotton shirts'', policy = ''Restricted''\<rparr>)
             ''12990000'' \<lparr>description = ''Telephone sets'', policy = ''Free''\<rparr>"
      "''12349999''" "\<lambda>prompt. None"]
  by (simp add: js_set_def is_array_index_def is_digit_def int_of_digits_def
      object_prototype_names_def toLowerCase_def to_lower_def char_of_def Let_def)

section \<open>Properties of the resolver\<close>

lemma normalized_cotton_shirts: "trim (toLowerCase ''cotton shirts'') = ''cotton shirts''"
  by (simp add: trim_def toLowerCase_def to_lower_def is_space_def)

text \<open>
  Claim C7 as stated (any phrase index without the key \<open>cotton shirts\<close> and with the key
  \<open>shirts\<close> resolves \<open>cotton shirts\<close> to the code of \<open>shirts\<close>) fails: the third tier
  takes the first key, in the order of \<open>Object.keys\<close>, that is longer than five characters
  and contained in the name. With \<open>cotton\<close> entered before \<open>shirts\<close> the code of \<open>cotton\<close>
  is returned.
\<close>

theorem cotton_shirts_first_match_wins:
  "map_of (js_set (js_set [] ''cotton'' ''52010000'') ''shirts'' ''62050000'') ''cotton shirts'' = None
   \<and> map_of (js_set (js_set [] ''cotton'' ''52010000'') ''shirts'' ''62050000'') ''shirts''
       = Some ''62050000''
   \<and> findHSCodeByItemName ''cotton shirts''
        (Some (js_set (js_set [] ''cotton'' ''52010000'') ''shirts'' ''62050000''))
       = Inr (Some (Str ''52010000''))"
  by (simp add: findHSCodeByItemName_def normalized_cotton_shirts js_get_def js_set_def
      is_array_index_def is_digit_def object_prototype_names_def sublist_code Let_def)

text \<open>
  Claim C7, amended. When the index maps \<open>shirts\<close> to \<open>c\<close>, no key of the index contains
  \<open>cotton shirts\<close> (so there is no exact entry and the second tier finds nothing), and
  \<open>shirts\<close> is the first key, in the order of \<open>Object.keys\<close>, that is longer than five
  characters and contained in \<open>cotton shirts\<close>, then \<open>findHSCodeByItemName\<close> returns \<open>c\<close>,
  through the third tier.
\<close>

theorem cotton_shirts_resolves_to_shirts:
  assumes "map_of index ''shirts'' = Some c"
    and "\<not> list_ex (\<lambda>key. sublist ''cotton shirts'' key) (map fst index)"
    and "find (\<lambda>key. sublist key ''cotton shirts'' \<and> 5 < length key) (map fst index) = Some ''shirts''"
  shows "findHSCodeByItemName ''cotton shirts'' (Some index) = Inr (Some (Str c))"
proof -
  have none: "find (\<lambda>key. sublist ''cotton shirts'' key) (map fst index) = None"
    using assms(2) by (simp add: find_None_iff list_ex_iff)
  have "''cotton shirts'' \<notin> fst ` set index"
    using assms(2) by (auto simp: list_ex_iff)
  then have "map_of index ''cotton shirts'' = None"
    by (simp add: map_of_eq_None_iff)
  then have "js_get index ''cotton shirts'' = Undefined"
    by (simp add: js_get_def object_prototype_names_def)
  then show ?thesis
    using none assms(1,3)
    by (simp add: findHSCodeByItemName_def normalized_cotton_shirts Let_def)
qed

theorem cotton_shirts_resolves_to_shirts_witness:
  "findHSCodeByItemName ''cotton shirts'' (Some (js_set [] ''shirts'' ''62050000''))
     = Inr (Some (Str ''62050000''))"
  using cotton_shirts_resolves_to_shirts [of "js_set [] ''shirts'' ''62050000''" "''62050000''"]
  by (simp add: sublist_code js_set_def is_array_index_def is_digit_def)

section \<open>Properties of the extractor\<close>

lemmas char_defs = is_digit_def is_space_def is_line_terminator_def to_lower_def char_of_def
  is_item_separator_def

lemma match_here_nondigit: "\<not> is_digit c \<Longrightarrow> match_here (c # cs) = None"
  by (simp add: match_here_def)

lemma exec_all_skip:
  "list_all (\<lambda>c. \<not> is_digit c) pre \<Longrightarrow> exec_all (pre @ rest) = exec_all rest"
  by (induction pre) (simp_all add: match_here_nondigit)

lemma match_here_fragment:
  "match_here (''85171200  Telephone sets  Free'' @ post)
     = Some (''85171200'', ''Telephone sets'', ''Free'', 30)"
  by (simp add: match_here_def policy_literals_def char_defs)

lemma exec_all_fragment:
  "exec_all (''85171200  Telephone sets  Free'' @ post)
     = (''85171200'', ''Telephone sets'', ''Free'') # exec_all post"
proof -
  have "exec_all (CHR ''8'' # ''5171200  Telephone sets  Free'' @ post)
     = (''85171200'', ''Telephone sets'', ''Free'') # exec_all (drop 30 (''85171200  Telephone sets  Free'' @ post))"
    using match_here_fragment [of post] by (simp del: drop_append)
  then show ?thesis by simp
qed

lemma add_match_fragment:
  "add_match ([], []) (''85171200'', ''Telephone sets'', ''Free'')
     = ([(''85171200'', \<lparr>description = ''Telephone sets'', policy = ''Free''\<rparr>)],
        [(''telephone sets'', ''85171200'')])"
  by (simp add: add_match_def add_item_def js_set_def is_array_index_def int_of_digits_def
      trim_def toLowerCase_def char_defs Let_def)

lemma map_of_insert_index:
  "map_of obj k = None \<Longrightarrow> map_of (insert_index k v obj) = (map_of obj)(k \<mapsto> v)"
proof (induction obj)
  case Nil
  then show ?case by simp
next
  case (Cons e obj)
  obtain k' v' where e: "e = (k', v')" by (cases e)
  from Cons.prems e have "k' \<noteq> k" and "map_of obj k = None"
    by (auto split: if_splits)
  with Cons.IH e show ?case by (auto simp: fun_upd_twist)
qed

lemma map_of_js_set:
  "map_of (js_set obj k v) = (if k = ''__proto__'' then map_of obj else (map_of obj)(k \<mapsto> v))"
  by (simp add: js_set_def map_of_insert_index update_conv')

lemma js_set_override:
  "map_of (js_set obj k v) = map_of obj ++ map_of (js_set [] k v)"
  by (simp add: map_of_js_set)

lemma add_items_override:
  "map_of (foldl (add_item code) m items) = map_of m ++ map_of (foldl (add_item code) [] items)"
proof (induction items rule: rev_induct)
  case Nil
  then show ?case by simp
next
  case (snoc item items)
  show ?case
  proof (cases "3 < length item")
    case True
    then have "map_of (foldl (add_item code) m (items @ [item]))
        = map_of (foldl (add_item code) m items) ++ map_of (js_set [] item code)"
      by (simp add: add_item_def js_set_override [of "foldl (add_item code) m items"])
    also have "\<dots> = map_of m ++ (map_of (foldl (add_item code) [] items) ++ map_of (js_set [] item code))"
      by (simp add: snoc.IH)
    also have "\<dots> = map_of m ++ map_of (foldl (add_item code) [] (items @ [item]))"
      using True by (simp add: add_item_def js_set_override [of "foldl (add_item code) [] items"])
    finally show ?thesis .
  next
    case False
    then show ?thesis using snoc.IH by (simp add: add_item_def)
  qed
qed

lemma add_match_override:
  "map_of (fst (add_match tabs m)) = map_of (fst tabs) ++ map_of (fst (add_match ([], []) m))"
  "map_of (snd (add_match tabs m)) = map_of (snd tabs) ++ map_of (snd (add_match ([], []) m))"
proof -
  obtain t i where tabs: "tabs = (t, i)" by (cases tabs)
  obtain code g2 pol where m: "m = (code, g2, pol)" by (cases m)
  show "map_of (fst (add_match tabs m)) = map_of (fst tabs) ++ map_of (fst (add_match ([], []) m))"
    by (simp add: tabs m add_match_def Let_def js_set_override [of t])
  let ?items = "map (\<lambda>item. toLowerCase (trim item)) (split_class is_item_separator [] (trim g2))"
  have "map_of (snd (add_match tabs m))
      = map_of (foldl (add_item code) i ?items) ++ map_of (js_set [] (toLowerCase (trim g2)) code)"
    by (simp add: tabs m add_match_def Let_def js_set_override [of "foldl (add_item code) i ?items"])
  also have "\<dots> = map_of i ++ (map_of (foldl (add_item code) [] ?items)
                         ++ map_of (js_set [] (toLowerCase (trim g2)) code))"
    by (simp add: add_items_override [of code i])
  also have "\<dots> = map_of i ++ map_of (snd (add_match ([], []) m))"
    by (simp add: m add_match_def Let_def js_set_override [of "foldl (add_item code) [] ?items"])
  finally show "map_of (snd (add_match tabs m)) = map_of (snd tabs) ++ map_of (snd (add_match ([], []) m))"
    by (simp add: tabs)
qed

lemma add_matches_override:
  "map_of (fst (foldl add_match tabs ms))
     = map_of (fst tabs) ++ map_of (fst (foldl add_match ([], []) ms))
   \<and> map_of (snd (foldl add_match tabs ms))
     = map_of (snd tabs) ++ map_of (snd (foldl add_match ([], []) ms))"
proof (induction ms rule: rev_induct)
  case Nil
  then show ?case by simp
next
  case (snoc m ms)
  show ?case
    using snoc.IH
    by (simp add: add_match_override [of "foldl add_match tabs ms"]
        add_match_override [of "foldl add_match ([], []) ms"])
qed

text \<open>
  Claim C8 as stated (any text that contains the fragment yields the entry) fails: a
  match that starts earlier can run over the fragment. In
  \<open>11111111 x 85171200  Telephone sets  Free\<close> the only match starts at \<open>11111111\<close>, its
  lazy description runs up to the first policy word, and neither the code \<open>85171200\<close>
  nor the phrase \<open>telephone sets\<close> is stored.
\<close>

theorem earlier_match_swallows_fragment:
  "sublist ''85171200  Telephone sets  Free'' ''11111111 x 85171200  Telephone sets  Free''
   \<and> extractHSCodes ''11111111 x 85171200  Telephone sets  Free''
       = ([(''11111111'', \<lparr>description = ''x 85171200  Telephone sets'', policy = ''Free''\<rparr>)],
          [(''x 85171200  telephone sets'', ''11111111'')])
   \<and> map_of (fst (extractHSCodes ''11111111 x 85171200  Telephone sets  Free'')) ''85171200'' = None
   \<and> map_of (snd (extractHSCodes ''11111111 x 85171200  Telephone sets  Free'')) ''telephone sets''
       = None"
proof -
  have "extractHSCodes ''11111111 x 85171200  Telephone sets  Free''
       = ([(''11111111'', \<lparr>description = ''x 85171200  Telephone sets'', policy = ''Free''\<rparr>)],
          [(''x 85171200  telephone sets'', ''11111111'')])"
    by (simp add: extractHSCodes_def match_here_def policy_literals_def
        add_match_def add_item_def js_set_def is_array_index_def int_of_digits_def
        trim_def toLowerCase_def char_defs Let_def)
  then show ?thesis by (simp add: sublist_code)
qed

text \<open>
  Claim C8, amended. Let the text be \<open>pre\<close>, the fragment, \<open>post\<close>, such that the matching
  loop arrives at the first digit of the fragment (the matches before it, \<open>ms\<close>, end
  before it; so it is when \<open>pre\<close> has no digit), and such that no match in \<open>post\<close> stores
  the code \<open>85171200\<close> or the phrase \<open>telephone sets\<close> again. Then the code table maps
  \<open>85171200\<close> to the description \<open>Telephone sets\<close> with policy \<open>Free\<close>, and the phrase
  index maps \<open>telephone sets\<close> to \<open>85171200\<close>.
\<close>

theorem fragment_entry_extracted:
  assumes "exec_all (pre @ ''85171200  Telephone sets  Free'' @ post)
             = ms @ exec_all (''85171200  Telephone sets  Free'' @ post)"
    and "map_of (fst (extractHSCodes post)) ''85171200'' = None"
    and "map_of (snd (extractHSCodes post)) ''telephone sets'' = None"
  shows "map_of (fst (extractHSCodes (pre @ ''85171200  Telephone sets  Free'' @ post))) ''85171200''
           = Some \<lparr>description = ''Telephone sets'', policy = ''Free''\<rparr>
       \<and> map_of (snd (extractHSCodes (pre @ ''85171200  Telephone sets  Free'' @ post))) ''telephone sets''
           = Some ''85171200''"
proof -
  let ?m = "(''85171200'', ''Telephone sets'', ''Free'')"
  let ?before = "foldl add_match ([], []) ms"
  have "exec_all (pre @ ''85171200  Telephone sets  Free'' @ post) = ms @ ?m # exec_all post"
    using assms(1) by (simp only: exec_all_fragment)
  then have e: "extractHSCodes (pre @ ''85171200  Telephone sets  Free'' @ post)
      = foldl add_match (add_match ?before ?m) (exec_all post)"
    by (simp only: extractHSCodes_def foldl_append foldl_Cons)
  have f: "map_of (fst (add_match ?before ?m)) ''85171200''
             = Some \<lparr>description = ''Telephone sets'', policy = ''Free''\<rparr>"
    and g: "map_of (snd (add_match ?before ?m)) ''telephone sets'' = Some ''85171200''"
    by (simp_all add: add_match_override [of ?before] add_match_fragment)
  show ?thesis
    unfolding e
    using assms(2,3) f g add_matches_override [of "add_match ?before ?m" "exec_all post"]
    by (simp add: extractHSCodes_def map_add_def)
qed

theorem fragment_entry_extracted_witness:
  "map_of (fst (extractHSCodes ''HS codes: 85171200  Telephone sets  Free.'')) ''85171200''
           = Some \<lparr>description = ''Telephone sets'', policy = ''Free''\<rparr>
       \<and> map_of (snd (extractHSCodes ''HS codes: 85171200  Telephone sets  Free.'')) ''telephone sets''
           = Some ''85171200''"
  using fragment_entry_extracted [of "''HS codes: ''" "''.''" "[]"]
  by (simp add: extractHSCodes_def match_here_def char_defs)

section \<open>Properties of the ranker\<close>












section \<open>Properties of the routes\<close>

text \<open>
  In \<open>check_export_compliance\<close> the value handed to the decision is always defined: a
  usable \<open>hsCode\<close>, or what one of the two branches found.
\<close>

lemma codeToCheck_defined:
  assumes "truthy (hsCode req) \<or> truthy (itemName req) \<or> truthy (itemDescription req)"
    and "byItemName db req (map_option Str (hsCode req)) = Inr (Inr code1)"
    and "byDescription db req explain code1 = Inr (Inr code2)"
  shows "code2 \<noteq> None"
proof (cases "truthy (hsCode req)")
  case True
  then obtain s where "hsCode req = Some s" by (cases "hsCode req") auto
  with True assms(2,3) show ?thesis
    by (auto simp: byItemName_def byDescription_def)
next
  case False
  show ?thesis
  proof (cases "truthy (itemDescription req)")
    case True
    with False assms(3) show ?thesis
      by (auto simp: byDescription_def Let_def split: sum.splits option.splits)
  next
    case d: False
    with False assms(1) have "truthy (itemName req)" by simp
    with False d assms(2,3) show ?thesis
      by (auto simp: byItemName_def byDescription_def split: sum.splits if_splits)
  qed
qed

text \<open>
  Claim C9. For a non-empty description: when the exact, case-insensitive search of the
  find-by-description route finds a code, the body of the response is the single field
  \<open>hsCode\<close>, with no \<open>status\<close>, and step 1 of the orchestrator, which reads
  \<open>data.status && data.hsCode\<close>, rejects the item with
  \<open>HS Code could not be determined\<close>; when only the partial search finds a code, the
  body carries \<open>status: true\<close> and step 1 goes on with that code.
\<close>

theorem exact_match_is_rejected:
  assumes "d \<noteq> []" and "hsCodesData db = Some t"
  shows "(exactMatch t (trim (toLowerCase d)) = Some code \<and> code \<noteq> []
            \<longrightarrow> find_by_description db (Some d) = (200, [(''hsCode'', JString code)])
              \<and> step1 (find_by_description db) None (Some d)
                  = Rejected (JString ''HS Code could not be determined''))
       \<and> (\<not> truthy (exactMatch t (trim (toLowerCase d)))
            \<and> partialMatch t (trim (toLowerCase d)) = Some code \<and> code \<noteq> []
            \<longrightarrow> find_by_description db (Some d)
                  = (200, [(''status'', JBool True), (''hsCode'', JString code),
                           (''note'', JString ''Found via partial match'')])
              \<and> step1 (find_by_description db) None (Some d)
                  = Proceed (JString code) (Some (JString ''Found via partial match'')))"
  using assms by (auto simp: find_by_description_def step1_def or_else_def Let_def)

theorem exact_match_is_rejected_witness:
  "step1 (find_by_description
            \<lparr>chunks = (None :: unit chunk_rec list option),
             hsCodesData = Some [(''62050000'', \<lparr>description = ''Cotton shirts'', policy = ''Free''\<rparr>)],
             itemToHsMap = None\<rparr>) None (Some ''cotton shirts'')
     = Rejected (JString ''HS Code could not be determined'')
   \<and> step1 (find_by_description
            \<lparr>chunks = (None :: unit chunk_rec list option),
             hsCodesData = Some [(''62050000'', \<lparr>description = ''Cotton shirts'', policy = ''Free''\<rparr>)],
             itemToHsMap = None\<rparr>) None (Some ''shirts'')
     = Proceed (JString ''62050000'') (Some (JString ''Found via partial match''))"
  using exact_match_is_rejected [of "''cotton shirts''"
      "\<lparr>chunks = (None :: unit chunk_rec list option),
             hsCodesData = Some [(''62050000'', \<lparr>description = ''Cotton shirts'', policy = ''Free''\<rparr>)],
             itemToHsMap = None\<rparr>"
      "[(''62050000'', \<lparr>description = ''Cotton shirts'', policy = ''Free''\<rparr>)]" "''62050000''"]
    exact_match_is_rejected [of "''shirts''"
      "\<lparr>chunks = (None :: unit chunk_rec list option),
             hsCodesData = Some [(''62050000'', \<lparr>description = ''Cotton shirts'', policy = ''Free''\<rparr>)],
             itemToHsMap = None\<rparr>"
      "[(''62050000'', \<lparr>description = ''Cotton shirts'', policy = ''Free''\<rparr>)]" "''62050000''"]
  by (simp add: exactMatch_def partialMatch_def trim_def toLowerCase_def to_lower_def char_of_def
      is_space_def sublist_code)

text \<open>Only a successful ingestion defines \<open>itemToHsMap\<close> in memory.\<close>

lemma upload_defines_itemToHsMap:
  "itemToHsMap (memory (upload_rules_pdf st embedFn pdfText)) \<noteq> None"
  by (simp add: upload_rules_pdf_def Let_def split: prod.split)

text \<open>
  Claim C10. After startup, whatever the snapshot file holds, \<open>itemToHsMap\<close> is
  undefined. A request to check-export-compliance with no usable \<open>hsCode\<close> and a
  non-empty \<open>itemName\<close> makes \<open>findHSCodeByItemName\<close> throw a \<open>TypeError\<close>, and the
  handler's \<open>catch\<close> answers with status 500.
\<close>

theorem item_name_lookup_fails_before_ingestion:
  assumes "\<not> truthy (hsCode req)" and "truthy (itemName req)"
  shows "itemToHsMap (startup file) = None
       \<and> findHSCodeByItemName (the (itemName req)) (itemToHsMap (startup file)) = Inl TypeError
       \<and> check_export_compliance (startup file) req explain =
           (500, [(''status'', JBool False),
                  (''error'', JString ''An error occurred while checking export compliance'')])"
proof -
  have m: "itemToHsMap (startup file) = None"
    by (simp add: startup_def split: option.split)
  then have f: "findHSCodeByItemName (the (itemName req)) (itemToHsMap (startup file)) = Inl TypeError"
    by (simp add: findHSCodeByItemName_def)
  have "byItemName (startup file) req (map_option Str (hsCode req)) = Inl TypeError"
    using assms f by (simp add: byItemName_def)
  then show ?thesis
    using assms m f by (simp add: check_export_compliance_def serverError_def)
qed

theorem item_name_lookup_fails_before_ingestion_witness:
  "check_export_compliance (startup (None :: unit snapshot option))
      \<lparr>hsCode = None, itemName = Some ''cotton shirts'', itemDescription = None\<rparr> (\<lambda>prompt. None)
     = (500, [(''status'', JBool False),
              (''error'', JString ''An error occurred while checking export compliance'')])"
  using item_name_lookup_fails_before_ingestion [of
      "\<lparr>hsCode = None, itemName = Some ''cotton shirts'', itemDescription = None\<rparr>"
      "None :: unit snapshot option" "\<lambda>prompt. None"]
  by simp

end
